theory Spec2Isabelle
  imports Main "HOL-Library.List_Lexorder" "HOL-Library.Char_ord"
begin

section \<open>Text primitives of the Python runtime\<close>

text \<open>
  Python text is modelled by \<open>string\<close>, a character being a code point below 256. The
  tables below are those of Python for these code points. Two of them have a capital
  above 255, which no character of the model holds: the micro sign (capital U+039C) and
  the y with diaeresis (capital U+0178). \<open>upper_chars\<close> and \<open>title_chars\<close> keep these
  two characters; on a text without them \<open>py_upper\<close> and \<open>py_title\<close> are exact.
\<close>

definition ascii_lowercase :: string where
  "ascii_lowercase = ''abcdefghijklmnopqrstuvwxyz''"

definition ascii_uppercase :: string where
  "ascii_uppercase = ''ABCDEFGHIJKLMNOPQRSTUVWXYZ''"

definition digits :: string where
  "digits = ''0123456789''"

text \<open>The accented capitals, 0xC0 to 0xDE without the multiplication sign.\<close>

definition latin1_uppercase :: string where
  "latin1_uppercase =
    [CHR 0xC0, CHR 0xC1, CHR 0xC2, CHR 0xC3, CHR 0xC4, CHR 0xC5, CHR 0xC6, CHR 0xC7,
     CHR 0xC8, CHR 0xC9, CHR 0xCA, CHR 0xCB, CHR 0xCC, CHR 0xCD, CHR 0xCE, CHR 0xCF,
     CHR 0xD0, CHR 0xD1, CHR 0xD2, CHR 0xD3, CHR 0xD4, CHR 0xD5, CHR 0xD6, CHR 0xD8,
     CHR 0xD9, CHR 0xDA, CHR 0xDB, CHR 0xDC, CHR 0xDD, CHR 0xDE]"

text \<open>Their small letters, 0xE0 to 0xFE without the division sign.\<close>

definition latin1_lowercase :: string where
  "latin1_lowercase =
    [CHR 0xE0, CHR 0xE1, CHR 0xE2, CHR 0xE3, CHR 0xE4, CHR 0xE5, CHR 0xE6, CHR 0xE7,
     CHR 0xE8, CHR 0xE9, CHR 0xEA, CHR 0xEB, CHR 0xEC, CHR 0xED, CHR 0xEE, CHR 0xEF,
     CHR 0xF0, CHR 0xF1, CHR 0xF2, CHR 0xF3, CHR 0xF4, CHR 0xF5, CHR 0xF6, CHR 0xF8,
     CHR 0xF9, CHR 0xFA, CHR 0xFB, CHR 0xFC, CHR 0xFD, CHR 0xFE]"

definition sharp_s :: char where
  "sharp_s = CHR 0xDF"

definition micro_sign :: char where
  "micro_sign = CHR 0xB5"

definition y_diaeresis :: char where
  "y_diaeresis = CHR 0xFF"

definition capitals_in_range :: "string \<Rightarrow> bool" where
  "capitals_in_range s = (micro_sign \<notin> set s \<and> y_diaeresis \<notin> set s)"

definition newline :: char where
  "newline = CHR 0x0A"

text \<open>
  The characters \<open>str.strip()\<close> removes: tab, LF, VT, FF, CR, FS, GS, RS, US, space,
  NEL and the no-break space.
\<close>

definition whitespace :: string where
  "whitespace = [CHR 0x09, CHR 0x0A, CHR 0x0B, CHR 0x0C, CHR 0x0D,
                 CHR 0x1C, CHR 0x1D, CHR 0x1E, CHR 0x1F, CHR 0x20, CHR 0x85, CHR 0xA0]"

definition is_space :: "char \<Rightarrow> bool" where
  "is_space c = (c \<in> set whitespace)"

text \<open>The class \<open>\d\<close>: below 256 the decimal digits are the ten ASCII digits.\<close>

definition is_digit :: "char \<Rightarrow> bool" where
  "is_digit c = (c \<in> set digits)"

text \<open>
  The alphanumeric characters above 127: the ordinal indicators, the superscript digits,
  the micro sign, the vulgar fractions and the accented letters.
\<close>

definition latin1_alnum :: string where
  "latin1_alnum =
     [CHR 0xAA, CHR 0xB2, CHR 0xB3, CHR 0xB5, CHR 0xB9, CHR 0xBA, CHR 0xBC, CHR 0xBD, CHR 0xBE]
     @ latin1_uppercase @ [sharp_s] @ latin1_lowercase @ [y_diaeresis]"

text \<open>The class \<open>\w\<close>: the alphanumeric characters and the underscore.\<close>

definition is_word :: "char \<Rightarrow> bool" where
  "is_word c = (c \<in> set ascii_lowercase \<or> c \<in> set ascii_uppercase \<or> is_digit c
                \<or> c = CHR ''_'' \<or> c \<in> set latin1_alnum)"

text \<open>The cased characters: the letters with a case, and the two ordinal indicators.\<close>

definition is_cased :: "char \<Rightarrow> bool" where
  "is_cased c = (c \<in> set ascii_lowercase \<or> c \<in> set ascii_uppercase
                 \<or> c \<in> set latin1_lowercase \<or> c \<in> set latin1_uppercase
                 \<or> c \<in> set [CHR 0xAA, micro_sign, CHR 0xBA, sharp_s, y_diaeresis])"

definition capital_of :: "char \<Rightarrow> char option" where
  "capital_of = map_of (zip (ascii_lowercase @ latin1_lowercase)
                            (ascii_uppercase @ latin1_uppercase))"

definition small_of :: "char \<Rightarrow> char option" where
  "small_of = map_of (zip (ascii_uppercase @ latin1_uppercase)
                          (ascii_lowercase @ latin1_lowercase))"

text \<open>\<open>str.upper()\<close> on one character; the sharp s becomes two letters.\<close>

definition upper_chars :: "char \<Rightarrow> string" where
  "upper_chars c = (if c = sharp_s then ''SS''
                    else case capital_of c of Some u \<Rightarrow> [u] | None \<Rightarrow> [c])"

text \<open>The title-case form of one character; it differs from the capital for the sharp s.\<close>

definition title_chars :: "char \<Rightarrow> string" where
  "title_chars c = (if c = sharp_s then ''Ss''
                    else case capital_of c of Some u \<Rightarrow> [u] | None \<Rightarrow> [c])"

definition lower_char :: "char \<Rightarrow> char" where
  "lower_char c = (case small_of c of Some l \<Rightarrow> l | None \<Rightarrow> c)"

definition py_upper :: "string \<Rightarrow> string" where
  "py_upper s = concat (map upper_chars s)"

definition py_lower :: "string \<Rightarrow> string" where
  "py_lower s = map lower_char s"

definition py_strip :: "string \<Rightarrow> string" where
  "py_strip s = rev (dropWhile is_space (rev (dropWhile is_space s)))"

text \<open>
  \<open>str.title()\<close>: a character that follows a cased character is lowered, any other
  character gets its title-case form; the flag says whether the previous character was
  cased.
\<close>

fun title_from :: "bool \<Rightarrow> string \<Rightarrow> string" where
  "title_from prev [] = []"
| "title_from prev (c # cs) =
     (if prev then [lower_char c] else title_chars c) @ title_from (is_cased c) cs"

definition py_title :: "string \<Rightarrow> string" where
  "py_title s = title_from False s"


section \<open>The regular expressions of the validation helpers\<close>

text \<open>
  The two patterns of the source use only anchors, single characters, the classes
  \<open>\d\<close>, \<open>\w\<close> and \<open>[\w\.-]\<close>, and the greedy \<open>+\<close>. A pattern is the
  list of its atoms.
\<close>

datatype cclass = Lit char | Digit | Word | Word_Dot_Hyphen

datatype atom = Bol | Eol | One cclass | Plus cclass

fun in_class :: "cclass \<Rightarrow> char \<Rightarrow> bool" where
  "in_class (Lit a) c = (c = a)"
| "in_class Digit c = is_digit c"
| "in_class Word c = is_word c"
| "in_class Word_Dot_Hyphen c = (is_word c \<or> c = CHR ''.'' \<or> c = CHR ''-'')"

text \<open>
  The backtracking matcher of \<open>re\<close>. \<open>match_at p at_start s\<close> matches the atoms \<open>p\<close>
  against the text \<open>s\<close> that remains, \<open>at_start\<close> telling whether no character has
  been consumed yet; the result is the number of characters the match consumes.
  \<open>^\<close> matches at the start of the text; \<open>$\<close> (without MULTILINE) matches at the end
  of the text and also just before a newline that ends the text; \<open>c+\<close> takes as many
  characters as it can and gives them back one at a time.
\<close>

fun match_at :: "atom list \<Rightarrow> bool \<Rightarrow> string \<Rightarrow> nat option" where
  "match_at [] at_start s = Some 0"
| "match_at (Bol # p) at_start s = (if at_start then match_at p at_start s else None)"
| "match_at (Eol # p) at_start s =
     (if s = [] \<or> s = [newline] then match_at p at_start s else None)"
| "match_at (One c # p) at_start [] = None"
| "match_at (One c # p) at_start (x # xs) =
     (if in_class c x then map_option Suc (match_at p False xs) else None)"
| "match_at (Plus c # p) at_start [] = None"
| "match_at (Plus c # p) at_start (x # xs) =
     (if in_class c x
      then (case match_at (Plus c # p) False xs of
              Some n \<Rightarrow> Some (Suc n)
            | None \<Rightarrow> map_option Suc (match_at p False xs))
      else None)"

text \<open>A match object, with its span; \<open>re.match\<close> returns one, or \<open>None\<close>.\<close>

datatype re_Match = Match (span_start: nat) (span_end: nat)

definition re_match :: "atom list \<Rightarrow> string \<Rightarrow> re_Match option" where
  "re_match p s = map_option (Match 0) (match_at p True s)"

text \<open>Python's truth value of the result, and whether it is the null value \<open>None\<close>.\<close>

definition truthy :: "re_Match option \<Rightarrow> bool" where
  "truthy r = (case r of None \<Rightarrow> False | Some m \<Rightarrow> True)"

definition is_null :: "re_Match option \<Rightarrow> bool" where
  "is_null r = (case r of None \<Rightarrow> True | Some m \<Rightarrow> False)"

text \<open>\<open>^[\w\.-]+@[\w\.-]+\.\w+$\<close>\<close>

definition email_pattern :: "atom list" where
  "email_pattern = [Bol, Plus Word_Dot_Hyphen, One (Lit CHR ''@''), Plus Word_Dot_Hyphen,
                    One (Lit CHR ''.''), Plus Word, Eol]"

text \<open>\<open>^S\d+$\<close>\<close>

definition id_pattern :: "atom list" where
  "id_pattern = [Bol, One (Lit CHR ''S''), Plus Digit, Eol]"

definition validate_email :: "string \<Rightarrow> re_Match option" where
  "validate_email email = re_match email_pattern email"

definition validate_id :: "string \<Rightarrow> re_Match option" where
  "validate_id sid = re_match id_pattern sid"


section \<open>The database\<close>

text \<open>The three tables, with the columns the statements of the source name.\<close>

record student =
  student_id :: string
  name :: string
  email :: string

record service =
  service_id :: string
  service_name :: string

record student_service =
  student_service_id :: string
  log_student_id :: string
  log_service_id :: string
  service_date :: string

record database =
  Students :: "student list"
  Services :: "service list"
  StudentServices :: "student_service list"

text \<open>
  The open connection: the tables behind it, and the failures of the server that do not
  depend on the data (a lost connection, say). \<open>read_error\<close> is what \<open>pd.read_sql\<close>
  meets, \<open>execute_error\<close> what \<open>cursor.execute\<close> meets.
\<close>

record connection =
  data :: database
  read_error :: "string option"
  execute_error :: "string option"

text \<open>The exceptions that can leave \<open>main\<close>.\<close>

datatype exn = IndexError | DatabaseError string | MySQL_Error string

text \<open>The statements \<open>main\<close> hands to \<open>cursor.execute\<close>, with their parameters.\<close>

datatype statement =
    Insert_Student string string string
  | Insert_Log string string string string
  | Update_Email string string
  | Delete_Student string

text \<open>
  Modelled from the spec: the table definitions are not in the source. The spec gives
  the keys (\<open>student_id\<close> and \<open>student_service_id\<close> unique, a log row referencing an
  existing student and an existing service, an insert that breaks one of these failing),
  the cascade from a student to its log rows, and an update of a missing key as a
  successful no-op. Keys are compared exactly.
\<close>

fun run_statement :: "statement \<Rightarrow> database \<Rightarrow> string + database" where
  "run_statement (Insert_Student sid sname semail) d =
     (if sid \<in> set (map student_id (Students d)) then Inl ''Duplicate entry''
      else Inr (d\<lparr>Students := Students d @ [\<lparr>student_id = sid, name = sname, email = semail\<rparr>]\<rparr>))"
| "run_statement (Insert_Log lid sid vid date_val) d =
     (if lid \<in> set (map student_service_id (StudentServices d)) then Inl ''Duplicate entry''
      else if sid \<notin> set (map student_id (Students d)) \<or> vid \<notin> set (map service_id (Services d))
      then Inl ''Cannot add or update a child row''
      else Inr (d\<lparr>StudentServices := StudentServices d @
                  [\<lparr>student_service_id = lid, log_student_id = sid, log_service_id = vid,
                    service_date = date_val\<rparr>]\<rparr>))"
| "run_statement (Update_Email new_email tid) d =
     Inr (d\<lparr>Students := map (\<lambda>r. if student_id r = tid then r\<lparr>email := new_email\<rparr> else r)
                             (Students d)\<rparr>)"
| "run_statement (Delete_Student sid) d =
     Inr (d\<lparr>Students := filter (\<lambda>r. student_id r \<noteq> sid) (Students d),
            StudentServices := filter (\<lambda>l. log_student_id l \<noteq> sid) (StudentServices d)\<rparr>)"

text \<open>\<open>cursor.execute\<close> followed by \<open>conn.commit()\<close>: the error message, or the new tables.\<close>

definition execute :: "connection \<Rightarrow> statement \<Rightarrow> string + database" where
  "execute c stmt = (case execute_error c of
                       Some e \<Rightarrow> Inl e
                     | None \<Rightarrow> run_statement stmt (data c))"

text \<open>\<open>pd.read_sql("SELECT student_id, name FROM Students", conn)\<close> and its twin for services.\<close>

definition read_students :: "connection \<Rightarrow> exn + student list" where
  "read_students c = (case read_error c of
                        Some e \<Rightarrow> Inl (DatabaseError e)
                      | None \<Rightarrow> Inr (Students (data c)))"

definition read_services :: "connection \<Rightarrow> exn + service list" where
  "read_services c = (case read_error c of
                        Some e \<Rightarrow> Inl (DatabaseError e)
                      | None \<Rightarrow> Inr (Services (data c)))"


section \<open>Widgets and data-frame lookups\<close>

text \<open>
  \<open>st.selectbox(label, options)\<close>: \<open>pick\<close> is the position the operator chose (0 when
  the widget is left alone); the widget gives \<open>None\<close> when there is nothing there, as
  for an empty list of options.
\<close>

definition selectbox :: "'a list \<Rightarrow> nat \<Rightarrow> 'a option" where
  "selectbox options pick = (if pick < length options then Some (options ! pick) else None)"

text \<open>\<open>.values[0]\<close>: the first element, or IndexError.\<close>

definition values0 :: "'a list \<Rightarrow> exn + 'a" where
  "values0 xs = (case xs of [] \<Rightarrow> Inl IndexError | x # _ \<Rightarrow> Inr x)"

text \<open>\<open>st_df[st_df['name'] == selected]['student_id'].values[0]\<close>\<close>

definition student_id_by_name :: "student list \<Rightarrow> string option \<Rightarrow> exn + string" where
  "student_id_by_name st_df selected =
     values0 (map student_id (filter (\<lambda>r. Some (name r) = selected) st_df))"

text \<open>\<open>sv_df[sv_df['service_name'] == selected]['service_id'].values[0]\<close>\<close>

definition service_id_by_name :: "service list \<Rightarrow> string option \<Rightarrow> exn + string" where
  "service_id_by_name sv_df selected =
     values0 (map service_id (filter (\<lambda>r. Some (service_name r) = selected) sv_df))"


section \<open>The workflows of the Registration Desk\<close>

text \<open>What a workflow puts on the screen.\<close>

datatype message =
    Id_Format_Error
  | Invalid_Email_Format
  | Student_Added string
  | Db_Error string
  | Service_Registered "string option" "string option"
  | Email_Updated
  | Record_Wiped "string option"
  | Verification_Failed

text \<open>
  A workflow either runs to its end, with its messages, or an exception leaves it; in
  both cases \<open>after\<close> is the content of the tables at that moment.
\<close>

datatype outcome =
    Done "message list" (after: database)
  | Raised exn (after: database)

text \<open>Tab 1, "Add New Student": the three typed fields and the submit button.\<close>

definition add_student :: "connection \<Rightarrow> string \<Rightarrow> string \<Rightarrow> string \<Rightarrow> bool \<Rightarrow> outcome" where
  "add_student c typed_id typed_name typed_email submitted =
     (let sid = py_upper (py_strip typed_id);
          sname = py_title (py_strip typed_name);
          semail = py_lower (py_strip typed_email)
      in if submitted then
           (if \<not> truthy (validate_id sid) then Done [Id_Format_Error] (data c)
            else if \<not> truthy (validate_email semail) then Done [Invalid_Email_Format] (data c)
            else (case execute c (Insert_Student sid sname semail) of
                    Inl e \<Rightarrow> Done [Db_Error e] (data c)
                  | Inr d' \<Rightarrow> Done [Student_Added sname] d'))
         else Done [] (data c))"

text \<open>Tab 2, "Log Service Activity".\<close>

definition log_service ::
    "connection \<Rightarrow> string \<Rightarrow> nat \<Rightarrow> nat \<Rightarrow> string \<Rightarrow> bool \<Rightarrow> outcome" where
  "log_service c typed_log_id pick_st pick_sv date_val submitted =
     (case read_students c of
        Inl e \<Rightarrow> Raised e (data c)
      | Inr st_df \<Rightarrow>
     (case read_services c of
        Inl e \<Rightarrow> Raised e (data c)
      | Inr sv_df \<Rightarrow>
     (let log_id = py_upper (py_strip typed_log_id);
          selected_st = selectbox (map name st_df) pick_st;
          selected_sv = selectbox (map service_name sv_df) pick_sv
      in if submitted then
           (case student_id_by_name st_df selected_st of
              Inl e \<Rightarrow> Raised e (data c)
            | Inr s_id \<Rightarrow>
           (case service_id_by_name sv_df selected_sv of
              Inl e \<Rightarrow> Raised e (data c)
            | Inr v_id \<Rightarrow>
           (case execute c (Insert_Log log_id s_id v_id date_val) of
              Inl e \<Rightarrow> Done [Db_Error e] (data c)
            | Inr d' \<Rightarrow> Done [Service_Registered selected_sv selected_st] d')))
         else Done [] (data c))))"

text \<open>Tab 3, "Update Email".\<close>

definition update_email :: "connection \<Rightarrow> nat \<Rightarrow> string \<Rightarrow> bool \<Rightarrow> outcome" where
  "update_email c pick typed clicked =
     (case read_students c of
        Inl e \<Rightarrow> Raised e (data c)
      | Inr st_list \<Rightarrow>
     (let target_st = selectbox (map name st_list) pick;
          new_email = py_lower (py_strip typed)
      in if clicked then
           (if truthy (validate_email new_email) then
              (case student_id_by_name st_list target_st of
                 Inl e \<Rightarrow> Raised e (data c)
               | Inr tid \<Rightarrow>
              (case execute c (Update_Email new_email tid) of
                 Inl e \<Rightarrow> Raised (MySQL_Error e) (data c)
               | Inr d' \<Rightarrow> Done [Email_Updated] d'))
            else Done [] (data c))
         else Done [] (data c)))"

text \<open>Tab 4, "Remove Records", with the option "Delete Entire Student Profile" chosen.\<close>

definition delete_student :: "connection \<Rightarrow> nat \<Rightarrow> string \<Rightarrow> bool \<Rightarrow> outcome" where
  "delete_student c pick typed clicked =
     (case read_students c of
        Inl e \<Rightarrow> Raised e (data c)
      | Inr st_list \<Rightarrow>
     (let student_to_drop = selectbox (map name st_list) pick
      in case student_id_by_name st_list student_to_drop of
           Inl e \<Rightarrow> Raised e (data c)
         | Inr expected_id \<Rightarrow>
        (let confirm_id = py_upper (py_strip typed)
         in if clicked then
              (if confirm_id = expected_id then
                 (case execute c (Delete_Student confirm_id) of
                    Inl e \<Rightarrow> Raised (MySQL_Error e) (data c)
                  | Inr d' \<Rightarrow> Done [Record_Wiped student_to_drop] d')
               else Done [Verification_Failed] (data c))
            else Done [] (data c))))"


section \<open>Search and Manage\<close>

record tracker_row =
  Student :: string
  Service :: string
  Date_Used :: string

text \<open>
  The operator \<open>LIKE\<close> on a pattern without the escape character: \<open>%\<close> stands for any
  run of characters, \<open>_\<close> for any one character, every other character for itself.
\<close>

text \<open>
  Modelled from the spec: the collation of the \<open>Student\<close> column of the tracker view is
  not in the source; the spec takes the comparison to be case-sensitive, so characters are
  compared exactly here and names are ordered by character codes in \<open>search_manage\<close>.
\<close>

fun sql_like :: "string \<Rightarrow> string \<Rightarrow> bool" where
  "sql_like [] s = (s = [])"
| "sql_like (p # ps) [] = (p = CHR ''%'' \<and> sql_like ps [])"
| "sql_like (p # ps) (c # cs) =
     (if p = CHR ''%'' then sql_like ps (c # cs) \<or> sql_like (p # ps) cs
      else if p = CHR ''_'' then sql_like ps cs
      else p = c \<and> sql_like ps cs)"

text \<open>
  The search text is pasted between the quotes of a string literal. A quote or a
  backslash in it changes where that literal ends or what it denotes; the statement that
  results is not modelled.
\<close>

definition leaves_literal :: "string \<Rightarrow> bool" where
  "leaves_literal search = (CHR 0x27 \<in> set search \<or> CHR 0x5C \<in> set search)"

datatype search_result = Shown "tracker_row list" | Statement_Altered

text \<open>
  \<open>SELECT * FROM vw_StudentServiceTracker\<close>, with
  \<open>WHERE Student LIKE '{search}%' ORDER BY Student ASC\<close> appended when the search text
  is not empty. \<open>view\<close> is the content of the tracker view.
\<close>

definition search_manage :: "tracker_row list \<Rightarrow> string \<Rightarrow> search_result" where
  "search_manage view search =
     (if search \<noteq> [] then
        (if leaves_literal search then Statement_Altered
         else Shown (sort_key Student (filter (\<lambda>r. sql_like (search @ ''%'') (Student r)) view)))
      else Shown view)"


section \<open>What the specification says, in its own words\<close>

text \<open>"\<open>S\<close> followed by one or more decimal digits and nothing else".\<close>

definition id_shape :: "string \<Rightarrow> bool" where
  "id_shape s = (\<exists>ds. s = CHR ''S'' # ds \<and> ds \<noteq> [] \<and> list_all is_digit ds)"

text \<open>
  "\<open>local@domain.tld\<close>": word, dot and hyphen characters, an \<open>@\<close>, word, dot and hyphen
  characters, a dot and a final label of word characters.
\<close>

definition email_shape :: "string \<Rightarrow> bool" where
  "email_shape s =
     (\<exists>l d t. s = l @ CHR ''@'' # d @ CHR ''.'' # t
        \<and> l \<noteq> [] \<and> list_all (in_class Word_Dot_Hyphen) l
        \<and> d \<noteq> [] \<and> list_all (in_class Word_Dot_Hyphen) d
        \<and> t \<noteq> [] \<and> list_all is_word t)"

text \<open>
  A text matches a pattern, read as a specification: some split of the text gives every
  atom its part. \<open>re.match\<close> asks for a match of a prefix, so the empty pattern accepts
  whatever remains.
\<close>

fun accepts :: "atom list \<Rightarrow> bool \<Rightarrow> string \<Rightarrow> bool" where
  "accepts [] at_start s = True"
| "accepts (Bol # p) at_start s = (at_start \<and> accepts p at_start s)"
| "accepts (Eol # p) at_start s = ((s = [] \<or> s = [newline]) \<and> accepts p at_start s)"
| "accepts (One c # p) at_start s =
     (\<exists>x xs. s = x # xs \<and> in_class c x \<and> accepts p False xs)"
| "accepts (Plus c # p) at_start s =
     (\<exists>w r. s = w @ r \<and> w \<noteq> [] \<and> list_all (in_class c) w \<and> accepts p False r)"

text \<open>"starts with".\<close>

definition starts_with :: "string \<Rightarrow> string \<Rightarrow> bool" where
  "starts_with p s = (take (length p) s = p)"

text \<open>Every log row references an existing student and an existing service.\<close>

definition referential_integrity :: "database \<Rightarrow> bool" where
  "referential_integrity d =
     (\<forall>l \<in> set (StudentServices d).
        log_student_id l \<in> set (map student_id (Students d))
        \<and> log_service_id l \<in> set (map service_id (Services d)))"

section \<open>Example data\<close>

text \<open>
  A small office: two students who share a name, one service, one log row for each
  student; the same office when the server has dropped the connection and
  \<open>cursor.execute\<close> fails; an office with empty tables; one row of the tracker view.
\<close>

definition ann :: student where
  "ann = \<lparr>student_id = ''S101'', name = ''Ann Lee'', email = ''ann@x.org''\<rparr>"

definition ann_namesake :: student where
  "ann_namesake = \<lparr>student_id = ''S102'', name = ''Ann Lee'', email = ''lee@x.org''\<rparr>"

definition tutoring :: service where
  "tutoring = \<lparr>service_id = ''V1'', service_name = ''Tutoring''\<rparr>"

definition ann_log :: student_service where
  "ann_log = \<lparr>student_service_id = ''SS1'', log_student_id = ''S101'', log_service_id = ''V1'',
               service_date = ''2024-01-05''\<rparr>"

definition namesake_log :: student_service where
  "namesake_log = \<lparr>student_service_id = ''SS2'', log_student_id = ''S102'', log_service_id = ''V1'',
               service_date = ''2024-01-06''\<rparr>"

definition office :: connection where
  "office = \<lparr>data = \<lparr>Students = [ann, ann_namesake], Services = [tutoring],
                      StudentServices = [ann_log, namesake_log]\<rparr>,
             read_error = None, execute_error = None\<rparr>"

definition office_offline :: connection where
  "office_offline = office\<lparr>execute_error := Some ''Lost connection''\<rparr>"

definition empty_office :: connection where
  "empty_office = \<lparr>data = \<lparr>Students = [], Services = [], StudentServices = []\<rparr>,
                   read_error = None, execute_error = None\<rparr>"

definition ann_row :: tracker_row where
  "ann_row = \<lparr>Student = ''Ann Lee'', Service = ''Tutoring'', Date_Used = ''2024-01-05''\<rparr>"


section \<open>The matcher against the reading of a pattern as a specification\<close>

lemma match_plus_iff:
  "(match_at (Plus c # p) b s \<noteq> None) =
     (\<exists>w r. s = w @ r \<and> w \<noteq> [] \<and> list_all (in_class c) w \<and> match_at p False r \<noteq> None)"
proof (induction s arbitrary: b)
  case Nil
  then show ?case by simp
next
  case (Cons x xs)
  show ?case
  proof
    assume L: "match_at (Plus c # p) b (x # xs) \<noteq> None"
    then have x: "in_class c x" by (auto split: if_splits)
    show "\<exists>w r. x # xs = w @ r \<and> w \<noteq> [] \<and> list_all (in_class c) w \<and> match_at p False r \<noteq> None"
    proof (cases "match_at (Plus c # p) False xs")
      case None
      with L x have "match_at p False xs \<noteq> None" by auto
      with x have "x # xs = [x] @ xs \<and> [x] \<noteq> [] \<and> list_all (in_class c) [x] \<and> match_at p False xs \<noteq> None"
        by simp
      then show ?thesis by blast
    next
      case (Some n)
      then obtain w r where "xs = w @ r" "w \<noteq> []" "list_all (in_class c) w" "match_at p False r \<noteq> None"
        using Cons.IH[of False] by auto
      with x have "x # xs = (x # w) @ r \<and> x # w \<noteq> [] \<and> list_all (in_class c) (x # w) \<and> match_at p False r \<noteq> None"
        by simp
      then show ?thesis by blast
    qed
  next
    assume "\<exists>w r. x # xs = w @ r \<and> w \<noteq> [] \<and> list_all (in_class c) w \<and> match_at p False r \<noteq> None"
    then obtain w r where w: "x # xs = w @ r" "w \<noteq> []" "list_all (in_class c) w" "match_at p False r \<noteq> None"
      by blast
    then obtain w' where w': "w = x # w'" by (cases w) auto
    with w have x: "in_class c x" and xs: "xs = w' @ r" and aw: "list_all (in_class c) w'" by auto
    show "match_at (Plus c # p) b (x # xs) \<noteq> None"
    proof (cases "w' = []")
      case True
      with xs w x show ?thesis by (auto split: option.splits)
    next
      case False
      with xs aw w have "match_at (Plus c # p) False xs \<noteq> None"
        using Cons.IH[of False] by blast
      with x show ?thesis by (auto split: option.splits)
    qed
  qed
qed

lemma match_at_accepts: "(match_at p b s \<noteq> None) = accepts p b s"
proof (induction p arbitrary: b s)
  case Nil
  then show ?case by simp
next
  case (Cons a p)
  show ?case
  proof (cases a)
    case Bol
    with Cons show ?thesis by simp
  next
    case Eol
    with Cons show ?thesis by simp
  next
    case (One c)
    with Cons show ?thesis by (cases s) auto
  next
    case (Plus c)
    with Cons show ?thesis by (simp only: match_plus_iff accepts.simps)
  qed
qed

lemma newline_not_digit: "\<not> is_digit newline"
  by (simp add: is_digit_def digits_def newline_def)

lemma newline_not_word: "\<not> is_word newline"
  by (simp add: is_word_def is_digit_def digits_def newline_def ascii_lowercase_def
        ascii_uppercase_def latin1_alnum_def latin1_lowercase_def latin1_uppercase_def
        sharp_s_def y_diaeresis_def)

lemma in_class_Digit: "in_class Digit = is_digit"
  by (rule ext) simp

lemma in_class_Word: "in_class Word = is_word"
  by (rule ext) simp

lemma accepts_id_pattern:
  "accepts id_pattern True s = (id_shape s \<or> (\<exists>w. s = w @ [newline] \<and> id_shape w))"
proof
  assume "accepts id_pattern True s"
  then obtain ds r where s: "s = CHR ''S'' # ds @ r" and ds: "ds \<noteq> []" "list_all is_digit ds"
    and r: "r = [] \<or> r = [newline]"
    by (auto simp: id_pattern_def in_class_Digit)
  from r show "id_shape s \<or> (\<exists>w. s = w @ [newline] \<and> id_shape w)"
  proof
    assume "r = []"
    with s ds have "id_shape s" by (auto simp: id_shape_def)
    then show ?thesis ..
  next
    assume "r = [newline]"
    with s ds have "s = (CHR ''S'' # ds) @ [newline] \<and> id_shape (CHR ''S'' # ds)"
      by (auto simp: id_shape_def)
    then show ?thesis by blast
  qed
next
  assume "id_shape s \<or> (\<exists>w. s = w @ [newline] \<and> id_shape w)"
  then obtain ds r where s: "s = CHR ''S'' # ds @ r" and ds: "ds \<noteq> []" "list_all is_digit ds"
    and r: "r = [] \<or> r = [newline]"
    by (auto simp: id_shape_def)
  then show "accepts id_pattern True s"
    by (auto simp: id_pattern_def in_class_Digit)
qed

lemma accepts_PlusI:
  "w \<noteq> [] \<Longrightarrow> list_all (in_class c) w \<Longrightarrow> accepts p False r \<Longrightarrow> accepts (Plus c # p) b (w @ r)"
  by (simp only: accepts.simps) blast

lemma accepts_OneI:
  "in_class c x \<Longrightarrow> accepts p False xs \<Longrightarrow> accepts (One c # p) b (x # xs)"
  by simp

lemma accepts_email_pattern:
  "accepts email_pattern True s = (email_shape s \<or> (\<exists>w. s = w @ [newline] \<and> email_shape w))"
proof
  assume "accepts email_pattern True s"
  then obtain l d t r where s: "s = l @ CHR ''@'' # d @ CHR ''.'' # t @ r"
    and l: "l \<noteq> []" "list_all (in_class Word_Dot_Hyphen) l"
    and d: "d \<noteq> []" "list_all (in_class Word_Dot_Hyphen) d"
    and t: "t \<noteq> []" "list_all is_word t"
    and r: "r = [] \<or> r = [newline]"
    by (auto simp: email_pattern_def in_class_Word)
  from r show "email_shape s \<or> (\<exists>w. s = w @ [newline] \<and> email_shape w)"
  proof
    assume "r = []"
    with s l d t have "email_shape s" unfolding email_shape_def by auto
    then show ?thesis ..
  next
    assume "r = [newline]"
    with s have "s = (l @ CHR ''@'' # d @ CHR ''.'' # t) @ [newline]" by simp
    moreover from l d t have "email_shape (l @ CHR ''@'' # d @ CHR ''.'' # t)"
      unfolding email_shape_def by auto
    ultimately show ?thesis by blast
  qed
next
  assume "email_shape s \<or> (\<exists>w. s = w @ [newline] \<and> email_shape w)"
  then obtain w r where sw: "s = w @ r" and w: "email_shape w" and r: "r = [] \<or> r = [newline]"
    by auto
  from w obtain l d t where w': "w = l @ CHR ''@'' # d @ CHR ''.'' # t"
    and l: "l \<noteq> []" "list_all (in_class Word_Dot_Hyphen) l"
    and d: "d \<noteq> []" "list_all (in_class Word_Dot_Hyphen) d"
    and t: "t \<noteq> []" "list_all is_word t"
    by (auto simp: email_shape_def)
  from sw w' have s: "s = l @ CHR ''@'' # d @ CHR ''.'' # t @ r" by simp
  have a4: "accepts [Eol] False r"
    using r by auto
  have tw: "list_all (in_class Word) t"
    using t by (simp add: in_class_Word)
  have a3: "accepts [Plus Word, Eol] False (t @ r)"
    by (rule accepts_PlusI [OF t(1) tw a4])
  have a3': "accepts [One (Lit CHR ''.''), Plus Word, Eol] False (CHR ''.'' # t @ r)"
    by (rule accepts_OneI [OF _ a3]) simp
  have a2: "accepts [Plus Word_Dot_Hyphen, One (Lit CHR ''.''), Plus Word, Eol] False
              (d @ CHR ''.'' # t @ r)"
    by (rule accepts_PlusI [OF d a3'])
  have a2': "accepts [One (Lit CHR ''@''), Plus Word_Dot_Hyphen, One (Lit CHR ''.''), Plus Word, Eol]
               False (CHR ''@'' # d @ CHR ''.'' # t @ r)"
    by (rule accepts_OneI [OF _ a2]) simp
  have "accepts [Plus Word_Dot_Hyphen, One (Lit CHR ''@''), Plus Word_Dot_Hyphen,
                 One (Lit CHR ''.''), Plus Word, Eol] True (l @ CHR ''@'' # d @ CHR ''.'' # t @ r)"
    by (rule accepts_PlusI [OF l a2'])
  then show "accepts email_pattern True s"
    by (simp only: email_pattern_def s accepts.simps simp_thms)
qed

lemma email_shape_last: "email_shape s \<Longrightarrow> s \<noteq> [] \<and> is_word (last s)"
  by (auto simp: email_shape_def list_all_iff)

lemma truthy_validate_id: "truthy (validate_id s) = accepts id_pattern True s"
  using match_at_accepts [of id_pattern True s]
  by (auto simp: truthy_def validate_id_def re_match_def split: option.splits)

lemma truthy_validate_email: "truthy (validate_email s) = accepts email_pattern True s"
  using match_at_accepts [of email_pattern True s]
  by (auto simp: truthy_def validate_email_def re_match_def split: option.splits)

lemma is_null_iff_not_truthy: "is_null r = (\<not> truthy r)"
  by (simp add: is_null_def truthy_def split: option.splits)

lemmas text_defs =
  is_space_def is_digit_def is_word_def is_cased_def whitespace_def digits_def
  ascii_lowercase_def ascii_uppercase_def latin1_lowercase_def latin1_uppercase_def
  latin1_alnum_def sharp_s_def micro_sign_def y_diaeresis_def capitals_in_range_def
  newline_def capital_of_def small_of_def upper_chars_def title_chars_def lower_char_def
  py_upper_def py_lower_def py_strip_def py_title_def

lemmas validate_defs =
  validate_id_def validate_email_def re_match_def id_pattern_def email_pattern_def
  truthy_def is_null_def

lemma validate_id_truthy_iff:
  "truthy (validate_id s) = (id_shape s \<or> (\<exists>w. s = w @ [newline] \<and> id_shape w))"
  by (simp add: truthy_validate_id accepts_id_pattern)

lemma validate_email_truthy_iff:
  "truthy (validate_email s) = (email_shape s \<or> (\<exists>w. s = w @ [newline] \<and> email_shape w))"
  by (simp add: truthy_validate_email accepts_email_pattern)

lemma validate_id_examples:
  "truthy (validate_id ''S101'')" "\<not> truthy (validate_id ''s101'')" "\<not> truthy (validate_id ''S10A'')"
  by (simp_all add: validate_defs text_defs)

lemma validate_email_examples:
  "truthy (validate_email ''a.b@x.com'')" "\<not> truthy (validate_email ''a@b'')"
  "\<not> truthy (validate_email ''@x.com'')"
  by (simp_all add: validate_defs text_defs)

lemma strip_upper_no_break_space: "py_upper (py_strip (''s101'' @ [CHR 0xA0])) = ''S101''"
  by (simp add: text_defs)

lemma validate_email_accented:
  "py_lower (py_strip ([CHR 0xC9] @ ''@X.com '')) = [CHR 0xE9] @ ''@x.com''"
  "truthy (validate_email ([CHR 0xE9] @ ''@x.com''))"
  by (simp_all add: validate_defs text_defs)


section \<open>Lookups by name\<close>

lemmas example_defs = ann_def ann_namesake_def tutoring_def ann_log_def namesake_log_def
  office_def office_offline_def empty_office_def ann_row_def

lemmas workflow_defs = delete_student_def update_email_def log_service_def add_student_def
  read_students_def read_services_def execute_def selectbox_def values0_def
  student_id_by_name_def service_id_by_name_def

lemma values0_filter_find:
  "values0 (map f (filter P xs)) = (case find P xs of None \<Rightarrow> Inl IndexError | Some x \<Rightarrow> Inr (f x))"
  by (induction xs) (auto simp: values0_def)

lemma student_id_by_name_find:
  "student_id_by_name rows (Some nm) =
     (case find (\<lambda>r. name r = nm) rows of None \<Rightarrow> Inl IndexError | Some r \<Rightarrow> Inr (student_id r))"
  by (simp add: student_id_by_name_def values0_filter_find)

lemma student_id_by_name_None: "student_id_by_name rows None = Inl IndexError"
  by (simp add: student_id_by_name_def values0_def)

lemma selectbox_names:
  "pick < length rows \<Longrightarrow> selectbox (map name rows) pick = Some (name (rows ! pick))"
  by (simp add: selectbox_def)




section \<open>The search pattern\<close>

lemma sql_like_percent: "sql_like ''%'' s"
  by (induction s) simp_all

lemma sql_like_prefix:
  "CHR ''%'' \<notin> set p \<Longrightarrow> CHR ''_'' \<notin> set p \<Longrightarrow> sql_like (p @ ''%'') s = starts_with p s"
proof (induction p arbitrary: s)
  case Nil
  then show ?case by (simp add: sql_like_percent starts_with_def)
next
  case (Cons a p)
  then show ?case by (cases s) (auto simp: starts_with_def)
qed

lemma search_manage_empty: "search_manage view [] = Shown view"
  by (simp add: search_manage_def)

lemma search_manage_plain:
  assumes "search \<noteq> []" and "\<not> leaves_literal search"
      and "CHR ''%'' \<notin> set search" and "CHR ''_'' \<notin> set search"
  shows "search_manage view search =
           Shown (sort_key Student (filter (\<lambda>r. starts_with search (Student r)) view))"
  using assms by (simp add: search_manage_def sql_like_prefix)

lemma search_manage_plain_sorted:
  assumes "search_manage view search = Shown rows" and "search \<noteq> []"
  shows "sorted (map Student rows)"
  using assms by (auto simp: search_manage_def split: if_splits)


section \<open>The claims of the specification\<close>

text \<open>
  Claim C1, as the specification states it, fails: the confirmation \<open>s101\<close> differs from
  the identifier \<open>S101\<close> of the selected student, and the student and its log row are
  deleted all the same, because the typed text is stripped and upper-cased before it is
  compared.
\<close>

theorem delete_student_lowercase_confirmation:
  "''s101'' \<noteq> student_id ann \<and>
   delete_student office 0 ''s101'' True =
     Done [Record_Wiped (Some ''Ann Lee'')]
       \<lparr>Students = [ann_namesake], Services = [tutoring], StudentServices = [namesake_log]\<rparr>"
  by (simp add: example_defs workflow_defs text_defs)

text \<open>
  Claim C1, amended: the Delete-Student workflow deletes only when the typed confirmation,
  once stripped of surrounding whitespace and upper-cased, equals the identifier the
  selected name resolves to. For every typed text whose normal form differs from that
  identifier, the verification failure is reported and the tables are what they were, so
  the row of the student and its log rows are intact; and whenever the tables have changed,
  the button was pressed and the normal form of the typed text is that identifier. The
  identifier is one without the two characters whose capital the model does not hold, as
  every identifier of the shape \<open>S\<close> and digits is; the outcome of the model is then
  that of the code for every typed text.
\<close>

theorem delete_student_confirmation:
  assumes "read_error c = None"
      and "student_id_by_name (Students (data c))
             (selectbox (map name (Students (data c))) pick) = Inr expected_id"
      and "capitals_in_range expected_id"
  shows "(py_upper (py_strip typed) \<noteq> expected_id \<longrightarrow>
            delete_student c pick typed True = Done [Verification_Failed] (data c))
       \<and> (after (delete_student c pick typed clicked) \<noteq> data c \<longrightarrow>
            clicked \<and> py_upper (py_strip typed) = expected_id)"
  using assms(1,2)
  by (auto simp: delete_student_def read_students_def Let_def split: sum.splits)

theorem delete_student_confirmation_witness:
  "read_error office = None
   \<and> student_id_by_name (Students (data office))
        (selectbox (map name (Students (data office))) 0) = Inr ''S101''
   \<and> capitals_in_range ''S101''
   \<and> py_upper (py_strip ''S999'') \<noteq> ''S101''
   \<and> delete_student office 0 ''S999'' True = Done [Verification_Failed] (data office)
   \<and> after (delete_student office 0 (''s101'' @ [CHR 0xA0]) True) \<noteq> data office
   \<and> py_upper (py_strip (''s101'' @ [CHR 0xA0])) = ''S101''"
proof -
  have h1: "read_error office = None"
    by (simp add: example_defs)
  have h2: "student_id_by_name (Students (data office))
              (selectbox (map name (Students (data office))) 0) = Inr ''S101''"
    by (simp add: example_defs workflow_defs)
  have h3: "capitals_in_range ''S101''"
    by (simp add: text_defs)
  have h4: "py_upper (py_strip ''S999'') \<noteq> ''S101''"
    by (simp add: text_defs)
  have h5: "after (delete_student office 0 (''s101'' @ [CHR 0xA0]) True) \<noteq> data office"
    by (simp add: example_defs workflow_defs text_defs)
  from delete_student_confirmation [OF h1 h2 h3, of "''S999''" True] h4
  have r1: "delete_student office 0 ''S999'' True = Done [Verification_Failed] (data office)"
    by blast
  from delete_student_confirmation [OF h1 h2 h3, of "''s101'' @ [CHR 0xA0]" True] h5
  have r2: "py_upper (py_strip (''s101'' @ [CHR 0xA0])) = ''S101''"
    by blast
  from h1 h2 h3 h4 r1 h5 r2 show ?thesis
    by (intro conjI)
qed

text \<open>
  Claim C2: after a confirmed Delete-Student for the identifier \<open>X\<close>, no row of
  \<open>Students\<close> has the identifier \<open>X\<close>, no row of \<open>StudentServices\<close> references
  \<open>X\<close>, and if every log row referenced an existing student and an existing service
  before, every remaining log row still does. The workflow issues the single statement on
  \<open>Students\<close>; the removal of the log rows is the cascade of \<open>run_statement\<close>.
\<close>

theorem delete_student_cascade:
  assumes "read_error c = None" and "execute_error c = None"
      and "student_id_by_name (Students (data c))
             (selectbox (map name (Students (data c))) pick) = Inr X"
      and "py_upper (py_strip typed) = X"
  shows "\<exists>msgs d'. delete_student c pick typed True = Done msgs d'
           \<and> X \<notin> set (map student_id (Students d'))
           \<and> X \<notin> set (map log_student_id (StudentServices d'))
           \<and> (referential_integrity (data c) \<longrightarrow> referential_integrity d')"
proof -
  define d' where "d' = (data c)\<lparr>Students := filter (\<lambda>r. student_id r \<noteq> X) (Students (data c)),
      StudentServices := filter (\<lambda>l. log_student_id l \<noteq> X) (StudentServices (data c))\<rparr>"
  have run: "delete_student c pick typed True =
               Done [Record_Wiped (selectbox (map name (Students (data c))) pick)] d'"
    using assms by (simp add: delete_student_def read_students_def execute_def d'_def)
  have gone: "X \<notin> set (map student_id (Students d'))"
             "X \<notin> set (map log_student_id (StudentServices d'))"
    by (auto simp: d'_def)
  have kept: "referential_integrity d'" if "referential_integrity (data c)"
    using that by (auto simp: referential_integrity_def d'_def)
  from run gone kept show ?thesis by blast
qed

theorem delete_student_cascade_witness:
  "read_error office = None \<and> execute_error office = None
   \<and> student_id_by_name (Students (data office))
        (selectbox (map name (Students (data office))) 0) = Inr ''S101''
   \<and> py_upper (py_strip ''s101'') = ''S101''
   \<and> referential_integrity (data office)
   \<and> (\<exists>msgs d'. delete_student office 0 ''s101'' True = Done msgs d'
           \<and> ''S101'' \<notin> set (map student_id (Students d'))
           \<and> ''S101'' \<notin> set (map log_student_id (StudentServices d'))
           \<and> referential_integrity d')"
proof -
  have h1: "read_error office = None" and h2: "execute_error office = None"
    by (simp_all add: example_defs)
  have h3: "student_id_by_name (Students (data office))
              (selectbox (map name (Students (data office))) 0) = Inr ''S101''"
    by (simp add: example_defs workflow_defs)
  have h4: "py_upper (py_strip ''s101'') = ''S101''"
    by (simp add: text_defs)
  have h5: "referential_integrity (data office)"
    by (simp add: referential_integrity_def example_defs)
  from delete_student_cascade [OF h1 h2 h3 h4] h1 h2 h3 h4 h5
  show ?thesis by simp
qed

text \<open>
  Claim C3 fails on the code: the search text is pasted into the \<open>LIKE\<close> pattern as it
  is, so \<open>_\<close> and \<open>%\<close> in it act as wildcards. Searching for \<open>_\<close> shows the row of
  Ann Lee, whose name does not start with \<open>_\<close>.
\<close>

theorem search_manage_wildcard:
  "search_manage [ann_row] ''_'' = Shown [ann_row] \<and> \<not> starts_with ''_'' (Student ann_row)"
  by (simp add: search_manage_def leaves_literal_def starts_with_def ann_row_def)

text \<open>
  Claim C4 fails on the code: \<open>$\<close> also matches before a newline that ends the text,
  so \<open>validate_id\<close> accepts \<open>S101\<close> followed by a newline, which is not \<open>S\<close>
  followed by digits and nothing else.
\<close>

theorem validate_id_trailing_newline:
  "truthy (validate_id (''S101'' @ [newline])) \<and> \<not> id_shape (''S101'' @ [newline])"
proof
  show "truthy (validate_id (''S101'' @ [newline]))"
    by (simp add: validate_defs text_defs)
  show "\<not> id_shape (''S101'' @ [newline])"
    using newline_not_digit by (simp add: id_shape_def)
qed

text \<open>
  Claim C5 fails on the code, for the same reason: \<open>validate_email\<close> accepts
  \<open>a.b@x.com\<close> followed by a newline, which has not the shape \<open>local@domain.tld\<close>.
\<close>

theorem validate_email_trailing_newline:
  "truthy (validate_email (''a.b@x.com'' @ [newline])) \<and> \<not> email_shape (''a.b@x.com'' @ [newline])"
proof
  show "truthy (validate_email (''a.b@x.com'' @ [newline]))"
    by (simp add: validate_defs text_defs)
  show "\<not> email_shape (''a.b@x.com'' @ [newline])"
    using email_shape_last [of "''a.b@x.com'' @ [newline]"] newline_not_word by auto
qed

text \<open>
  Claim C6, as the specification states it, fails: for a text that does not match, the
  validators return the result of \<open>re.match\<close>, which is the null value \<open>None\<close>.
\<close>

theorem validate_id_null_on_mismatch:
  "\<not> accepts id_pattern True ''s101'' \<and> is_null (validate_id ''s101'')
   \<and> \<not> accepts email_pattern True ''a@b'' \<and> is_null (validate_email ''a@b'')"
proof -
  have "\<not> truthy (validate_id ''s101'')" "\<not> truthy (validate_email ''a@b'')"
    by (simp_all add: validate_defs text_defs)
  then show ?thesis
    by (simp add: truthy_validate_id truthy_validate_email is_null_iff_not_truthy)
qed

text \<open>
  Claim C6, amended: \<open>validate_id\<close> and \<open>validate_email\<close> return a result for every
  text, either \<open>None\<close> or a match object that starts at position 0, and for every text
  that does not match the pattern the result is \<open>None\<close>, the null value, which is falsy.
\<close>

theorem validators_none_without_match:
  "(validate_id s = None \<or> (\<exists>e. validate_id s = Some (Match 0 e)))
   \<and> (validate_email s = None \<or> (\<exists>e. validate_email s = Some (Match 0 e)))
   \<and> (\<not> accepts id_pattern True s \<longrightarrow>
         validate_id s = None \<and> is_null (validate_id s) \<and> \<not> truthy (validate_id s))
   \<and> (\<not> accepts email_pattern True s \<longrightarrow>
         validate_email s = None \<and> is_null (validate_email s) \<and> \<not> truthy (validate_email s))"
proof -
  have shape: "validate_id s = None \<or> (\<exists>e. validate_id s = Some (Match 0 e))"
    "validate_email s = None \<or> (\<exists>e. validate_email s = Some (Match 0 e))"
    by (auto simp: validate_id_def validate_email_def re_match_def)
  have i: "validate_id s = None \<and> is_null (validate_id s) \<and> \<not> truthy (validate_id s)"
    if "\<not> accepts id_pattern True s"
    using that truthy_validate_id [of s]
    by (cases "validate_id s") (simp_all add: truthy_def is_null_def)
  have e: "validate_email s = None \<and> is_null (validate_email s) \<and> \<not> truthy (validate_email s)"
    if "\<not> accepts email_pattern True s"
    using that truthy_validate_email [of s]
    by (cases "validate_email s") (simp_all add: truthy_def is_null_def)
  from shape i e show ?thesis by blast
qed

theorem validators_none_without_match_witness:
  "\<not> accepts id_pattern True ''S10A'' \<and> validate_id ''S10A'' = None
   \<and> \<not> accepts email_pattern True ''S10A'' \<and> validate_email ''S10A'' = None"
proof -
  have "\<not> truthy (validate_id ''S10A'')" "\<not> truthy (validate_email ''S10A'')"
    by (simp_all add: validate_defs text_defs)
  then have h: "\<not> accepts id_pattern True ''S10A''" "\<not> accepts email_pattern True ''S10A''"
    by (simp_all add: truthy_validate_id truthy_validate_email)
  with validators_none_without_match [of "''S10A''"] show ?thesis by blast
qed

text \<open>
  Claim C7 fails on the code: the update statement of Update Email is not inside a
  \<open>try\<close>, so an error of the server leaves the controller as an exception, whereas Add
  Student, on the same connection, catches it and shows it.
\<close>

theorem update_email_error_propagates:
  "update_email office_offline 0 ''ann@y.org'' True =
     Raised (MySQL_Error ''Lost connection'') (data office_offline)
   \<and> add_student office_offline ''s103'' ''bob ray'' ''bob@y.org'' True =
     Done [Db_Error ''Lost connection''] (data office_offline)"
  by (simp add: example_defs workflow_defs validate_defs text_defs)




text \<open>
  Claim C9 fails on the code: with empty tables, Delete Student raises IndexError as soon
  as it is shown, and Update Email (with a valid address) and Log Service raise it when
  their button is pressed; none of them reports an empty state.
\<close>

theorem delete_student_empty_table_raises:
  "delete_student empty_office 0 [] False = Raised IndexError (data empty_office)
   \<and> update_email empty_office 0 ''a@b.co'' True = Raised IndexError (data empty_office)
   \<and> log_service empty_office ''ss1'' 0 0 ''2024-02-01'' True
       = Raised IndexError (data empty_office)"
  by (simp add: example_defs workflow_defs validate_defs text_defs)

text \<open>
  Claim C10: let \<open>first\<close> be the first row of \<open>Students\<close> that has the name of the
  selected row. The lookup by name gives the identifier of \<open>first\<close>; Update Email
  changes the address of the rows with that identifier only; Delete Student compares the
  confirmation with that identifier and deletes its rows only; Log Service inserts a log
  row for that identifier; and every row with another identifier, the other students of
  that name among them, is still in \<open>Students\<close> after Update Email and after Delete
  Student.
\<close>

theorem name_resolves_to_first_match:
  assumes "read_error c = None" and "execute_error c = None"
      and "pick < length (Students (data c))"
      and "find (\<lambda>r. name r = name (Students (data c) ! pick)) (Students (data c)) = Some first"
  shows "student_id_by_name (Students (data c)) (selectbox (map name (Students (data c))) pick)
           = Inr (student_id first)
       \<and> (truthy (validate_email (py_lower (py_strip typed_email))) \<longrightarrow>
            update_email c pick typed_email True =
              Done [Email_Updated]
                ((data c)\<lparr>Students :=
                   map (\<lambda>r. if student_id r = student_id first
                            then r\<lparr>email := py_lower (py_strip typed_email)\<rparr> else r)
                       (Students (data c))\<rparr>))
       \<and> (py_upper (py_strip typed_id) = student_id first \<longrightarrow>
            delete_student c pick typed_id True =
              Done [Record_Wiped (Some (name first))]
                ((data c)\<lparr>Students :=
                     filter (\<lambda>r. student_id r \<noteq> student_id first) (Students (data c)),
                   StudentServices :=
                     filter (\<lambda>l. log_student_id l \<noteq> student_id first) (StudentServices (data c))\<rparr>))
       \<and> (service_id_by_name (Services (data c))
             (selectbox (map service_name (Services (data c))) pick_sv) = Inr v_id \<longrightarrow>
            log_service c typed_log pick pick_sv date_val True =
              (case run_statement
                      (Insert_Log (py_upper (py_strip typed_log)) (student_id first) v_id date_val)
                      (data c) of
                 Inl e \<Rightarrow> Done [Db_Error e] (data c)
               | Inr d' \<Rightarrow>
                   Done [Service_Registered
                           (selectbox (map service_name (Services (data c))) pick_sv)
                           (Some (name first))] d'))
       \<and> (\<forall>r \<in> set (Students (data c)). student_id r \<noteq> student_id first \<longrightarrow>
            r \<in> set (Students (after (update_email c pick typed_email clicked)))
            \<and> r \<in> set (Students (after (delete_student c pick typed_id clicked))))"
proof -
  define rows where "rows = Students (data c)"
  have pick: "pick < length rows" and f: "find (\<lambda>r. name r = name (rows ! pick)) rows = Some first"
    using assms by (simp_all add: rows_def)
  from f have nm: "name first = name (rows ! pick)"
    by (auto simp: find_Some_iff)
  have sel: "selectbox (map name rows) pick = Some (name first)"
    using pick nm by (simp add: selectbox_names)
  have res: "student_id_by_name rows (selectbox (map name rows) pick) = Inr (student_id first)"
    using pick f by (simp add: selectbox_names student_id_by_name_find)
  have upd: "update_email c pick typed_email True =
              Done [Email_Updated]
                ((data c)\<lparr>Students :=
                   map (\<lambda>r. if student_id r = student_id first
                            then r\<lparr>email := py_lower (py_strip typed_email)\<rparr> else r) rows\<rparr>)"
    if "truthy (validate_email (py_lower (py_strip typed_email)))"
    using that assms(1,2) res
    by (simp add: update_email_def read_students_def execute_def rows_def Let_def)
  have del: "delete_student c pick typed_id True =
              Done [Record_Wiped (Some (name first))]
                ((data c)\<lparr>Students := filter (\<lambda>r. student_id r \<noteq> student_id first) rows,
                   StudentServices :=
                     filter (\<lambda>l. log_student_id l \<noteq> student_id first) (StudentServices (data c))\<rparr>)"
    if "py_upper (py_strip typed_id) = student_id first"
    using that assms(1,2) res sel
    by (simp add: delete_student_def read_students_def execute_def rows_def Let_def)
  have log: "log_service c typed_log pick pick_sv date_val True =
              (case run_statement
                      (Insert_Log (py_upper (py_strip typed_log)) (student_id first) v_id date_val)
                      (data c) of
                 Inl e \<Rightarrow> Done [Db_Error e] (data c)
               | Inr d' \<Rightarrow>
                   Done [Service_Registered
                           (selectbox (map service_name (Services (data c))) pick_sv)
                           (Some (name first))] d')"
    if "service_id_by_name (Services (data c))
             (selectbox (map service_name (Services (data c))) pick_sv) = Inr v_id"
    using that assms(1,2) res sel
    by (simp add: log_service_def read_students_def read_services_def execute_def rows_def
             Let_def split: sum.splits)
  have others: "r \<in> set (Students (after (update_email c pick typed_email clicked)))
            \<and> r \<in> set (Students (after (delete_student c pick typed_id clicked)))"
    if r: "r \<in> set rows" "student_id r \<noteq> student_id first" for r
  proof
    have "r \<in> (\<lambda>r. if student_id r = student_id first
                    then r\<lparr>email := py_lower (py_strip typed_email)\<rparr> else r) ` set rows"
      using r by force
    then show "r \<in> set (Students (after (update_email c pick typed_email clicked)))"
      using assms(1,2) res r
      by (simp add: update_email_def read_students_def execute_def rows_def Let_def)
  next
    show "r \<in> set (Students (after (delete_student c pick typed_id clicked)))"
      using assms(1,2) res r
      by (simp add: delete_student_def read_students_def execute_def rows_def Let_def)
  qed
  from res upd del log others show ?thesis
    unfolding rows_def by blast
qed

theorem name_resolves_to_first_match_witness:
  "read_error office = None \<and> execute_error office = None
   \<and> (1::nat) < length (Students (data office))
   \<and> find (\<lambda>r. name r = name (Students (data office) ! 1)) (Students (data office)) = Some ann
   \<and> Students (data office) ! 1 = ann_namesake
   \<and> student_id_by_name (Students (data office))
        (selectbox (map name (Students (data office))) 1) = Inr ''S101''
   \<and> update_email office 1 ''new@x.org'' True =
        Done [Email_Updated]
          ((data office)\<lparr>Students := [ann\<lparr>email := ''new@x.org''\<rparr>, ann_namesake]\<rparr>)
   \<and> delete_student office 1 ''s101'' True =
        Done [Record_Wiped (Some ''Ann Lee'')]
          ((data office)\<lparr>Students := [ann_namesake], StudentServices := [namesake_log]\<rparr>)
   \<and> log_service office ''ss3'' 1 0 ''2024-02-01'' True =
        Done [Service_Registered (Some ''Tutoring'') (Some ''Ann Lee'')]
          ((data office)\<lparr>StudentServices := [ann_log, namesake_log,
              \<lparr>student_service_id = ''SS3'', log_student_id = ''S101'', log_service_id = ''V1'',
                service_date = ''2024-02-01''\<rparr>]\<rparr>)
   \<and> ann_namesake \<in> set (Students (after (update_email office 1 ''new@x.org'' True)))
   \<and> ann_namesake \<in> set (Students (after (delete_student office 1 ''s101'' True)))"
proof -
  have h1: "read_error office = None" and h2: "execute_error office = None"
    and h3: "(1::nat) < length (Students (data office))"
    by (simp_all add: example_defs)
  have h4: "find (\<lambda>r. name r = name (Students (data office) ! 1)) (Students (data office))
              = Some ann"
    by (simp add: example_defs)
  have e: "truthy (validate_email (py_lower (py_strip ''new@x.org'')))"
    by (simp add: validate_defs text_defs)
  have low: "py_lower (py_strip ''new@x.org'') = ''new@x.org''"
    by (simp add: text_defs)
  have u: "py_upper (py_strip ''s101'') = student_id ann"
    by (simp add: text_defs ann_def)
  have lg: "py_upper (py_strip ''ss3'') = ''SS3''"
    by (simp add: text_defs)
  have v: "service_id_by_name (Services (data office))
             (selectbox (map service_name (Services (data office))) 0) = Inr ''V1''"
    by (simp add: example_defs workflow_defs)
  have m: "ann_namesake \<in> set (Students (data office))" "student_id ann_namesake \<noteq> student_id ann"
    by (simp_all add: example_defs)
  note t = name_resolves_to_first_match [OF h1 h2 h3 h4,
      of "''new@x.org''" "''s101''" 0 "''V1''" "''ss3''" "''2024-02-01''" True]
  from t e u v m h1 h2 h3 h4 show ?thesis
    by (simp add: low lg example_defs selectbox_def)
qed

end
